theory Spec2Isabelle
  imports Main "HOL-Library.Word" "HOL-Library.Monad_Syntax"
begin

unbundle bit_operations_syntax

section \<open>Machine types\<close>

type_synonym u8 = "8 word"
type_synonym u32 = "32 word"
type_synonym u64 = "64 word"

text \<open>
  The C++ shift operators on a 32-bit operand are defined only for a shift count below
  the width. A count of 32 or more has no defined result; the model returns \<open>None\<close>
  there. Throughout, \<open>None\<close> stands for an execution that leaves defined behaviour
  (out-of-range array index, over-wide shift) or stops at a failed \<open>assert\<close>.
\<close>

definition shl32 :: "u32 \<Rightarrow> nat \<Rightarrow> u32 option" where
  "shl32 v n = (if n < 32 then Some (push_bit n v) else None)"

definition shr32 :: "u32 \<Rightarrow> nat \<Rightarrow> u32 option" where
  "shr32 v n = (if n < 32 then Some (drop_bit n v) else None)"

definition sar32 :: "u32 \<Rightarrow> nat \<Rightarrow> u32 option" where
  "sar32 v n = (if n < 32 then Some (signed_drop_bit n v) else None)"

section \<open>Status register and processor state (ARM7TDMI.h)\<close>

text \<open>The bit-field struct \<open>ProgramStatusRegister\<close>; every field has its declared width.\<close>

record ProgramStatusRegister =
  Mode :: "5 word"
  T :: "1 word"
  F :: "1 word"
  I :: "1 word"
  Reserved :: "19 word"
  Q :: "1 word"
  V :: "1 word"
  C :: "1 word"
  Z :: "1 word"
  N :: "1 word"

text \<open>\<open>enum Mode\<close>.\<close>

definition USER :: "5 word" where "USER = 16"
definition FIQ :: "5 word" where "FIQ = 17"
definition IRQ :: "5 word" where "IRQ = 18"
definition SUPERVISOR :: "5 word" where "SUPERVISOR = 19"
definition ABORT :: "5 word" where "ABORT = 23"
definition UNDEFINED :: "5 word" where "UNDEFINED = 27"
definition SYSTEM :: "5 word" where "SYSTEM = 31"

text \<open>
  Storage cells. \<open>Registers i\<close> is element \<open>i\<close> of the array \<open>registers\<close> that the
  source indexes directly (\<open>registers[index]\<close>); the other cells are the banked
  variables \<open>r8_fiq\<close> .. \<open>r14_und\<close> of the header.
\<close>

datatype cell =
    Registers nat
  | R8_fiq | R9_fiq | R10_fiq | R11_fiq | R12_fiq | R13_fiq | R14_fiq
  | R13_irq | R14_irq
  | R13_svc | R14_svc
  | R13_abt | R14_abt
  | R13_und | R14_und

record AluShiftResult =
  op2 :: u32
  carry :: u8

record Cycles =
  nonSequentialCycles :: u8
  sequentialCycles :: u8
  internalCycles :: u8
  waitState :: u8

record ARM7TDMI =
  cells :: "cell \<Rightarrow> u32"
  cpsr :: ProgramStatusRegister
  SPSR_fiq :: ProgramStatusRegister
  SPSR_svc :: ProgramStatusRegister
  SPSR_abt :: ProgramStatusRegister
  SPSR_irq :: ProgramStatusRegister
  SPSR_und :: ProgramStatusRegister
  overflowBit :: u8
  carryBit :: u8
  zeroBit :: u8
  signBit :: u8

definition PC_REGISTER :: u8 where "PC_REGISTER = 15"
definition LINK_REGISTER :: u8 where "LINK_REGISTER = 14"
definition SP_REGISTER :: u8 where "SP_REGISTER = 13"
definition BOOT_LOCATION :: u32 where "BOOT_LOCATION = 0"

text \<open>
  Modelled from the spec: the pointer tables \<open>fiqRegisters\<close>, \<open>irqRegisters\<close>,
  \<open>svcRegisters\<close>, \<open>abtRegisters\<close> and \<open>undRegisters\<close> that \<open>getRegister\<close> and
  \<open>setRegister\<close> dereference are declared nowhere in the available sources. Following
  the data model of the specification, FIQ mode banks R8 to R14, the modes IRQ,
  Supervisor, Abort and Undefined bank R13 and R14, and every other entry points
  into \<open>registers\<close>.
\<close>

definition fiqRegisters :: "nat \<Rightarrow> cell" where
  "fiqRegisters i =
     (if i = 8 then R8_fiq else if i = 9 then R9_fiq else if i = 10 then R10_fiq
      else if i = 11 then R11_fiq else if i = 12 then R12_fiq
      else if i = 13 then R13_fiq else if i = 14 then R14_fiq else Registers i)"

definition irqRegisters :: "nat \<Rightarrow> cell" where
  "irqRegisters i = (if i = 13 then R13_irq else if i = 14 then R14_irq else Registers i)"

definition svcRegisters :: "nat \<Rightarrow> cell" where
  "svcRegisters i = (if i = 13 then R13_svc else if i = 14 then R14_svc else Registers i)"

definition abtRegisters :: "nat \<Rightarrow> cell" where
  "abtRegisters i = (if i = 13 then R13_abt else if i = 14 then R14_abt else Registers i)"

definition undRegisters :: "nat \<Rightarrow> cell" where
  "undRegisters i = (if i = 13 then R13_und else if i = 14 then R14_und else Registers i)"

section \<open>Register access (ARM7TDMI.cpp)\<close>

text \<open>All six arrays have 16 elements; an index of 16 or more is outside every one of them.\<close>

definition getRegister :: "u8 \<Rightarrow> ARM7TDMI \<Rightarrow> u32 option" where
  "getRegister index s =
     (if unat index < 16 then
        (if Mode (cpsr s) = USER then Some (cells s (Registers (unat index)))
         else if Mode (cpsr s) = FIQ then Some (cells s (fiqRegisters (unat index)))
         else if Mode (cpsr s) = IRQ then Some (cells s (irqRegisters (unat index)))
         else if Mode (cpsr s) = SUPERVISOR then Some (cells s (svcRegisters (unat index)))
         else if Mode (cpsr s) = ABORT then Some (cells s (abtRegisters (unat index)))
         else if Mode (cpsr s) = UNDEFINED then Some (cells s (undRegisters (unat index)))
         else Some (cells s (Registers (unat index))))
      else None)"

definition setRegister :: "u8 \<Rightarrow> u32 \<Rightarrow> ARM7TDMI \<Rightarrow> ARM7TDMI option" where
  "setRegister index v s =
     (if unat index < 16 then
        (if Mode (cpsr s) = USER then Some (s\<lparr>cells := (cells s)(Registers (unat index) := v)\<rparr>)
         else if Mode (cpsr s) = FIQ then Some (s\<lparr>cells := (cells s)(fiqRegisters (unat index) := v)\<rparr>)
         else if Mode (cpsr s) = IRQ then Some (s\<lparr>cells := (cells s)(irqRegisters (unat index) := v)\<rparr>)
         else if Mode (cpsr s) = SUPERVISOR then Some (s\<lparr>cells := (cells s)(svcRegisters (unat index) := v)\<rparr>)
         else if Mode (cpsr s) = ABORT then Some (s\<lparr>cells := (cells s)(abtRegisters (unat index) := v)\<rparr>)
         else if Mode (cpsr s) = UNDEFINED then Some (s\<lparr>cells := (cells s)(undRegisters (unat index) := v)\<rparr>)
         else Some (s\<lparr>cells := (cells s)(Registers (unat index) := v)\<rparr>))
      else None)"

text \<open>The storage cell that backs a logical index in a given mode, read off the two
  if-chains above.\<close>

definition activeCell :: "5 word \<Rightarrow> nat \<Rightarrow> cell" where
  "activeCell m i =
     (if m = FIQ then fiqRegisters i
      else if m = IRQ then irqRegisters i
      else if m = SUPERVISOR then svcRegisters i
      else if m = ABORT then abtRegisters i
      else if m = UNDEFINED then undRegisters i
      else Registers i)"

text \<open>The assignment \<open>cpsr.Mode = m\<close>, as the constructor performs it.\<close>

abbreviation withMode :: "5 word \<Rightarrow> ARM7TDMI \<Rightarrow> ARM7TDMI" where
  "withMode m s \<equiv> s\<lparr>cpsr := (cpsr s)\<lparr>Mode := m\<rparr>\<rparr>"

definition getModeSpsr :: "ARM7TDMI \<Rightarrow> ProgramStatusRegister" where
  "getModeSpsr s =
     (if Mode (cpsr s) = USER then cpsr s
      else if Mode (cpsr s) = FIQ then SPSR_fiq s
      else if Mode (cpsr s) = IRQ then SPSR_irq s
      else if Mode (cpsr s) = SUPERVISOR then SPSR_svc s
      else if Mode (cpsr s) = ABORT then SPSR_abt s
      else if Mode (cpsr s) = UNDEFINED then SPSR_und s
      else cpsr s)"

section \<open>Flag predicates\<close>

definition aluSetsZeroBit :: "u32 \<Rightarrow> bool" where
  "aluSetsZeroBit v = (v = 0)"

definition aluSetsSignBit :: "u32 \<Rightarrow> bool" where
  "aluSetsSignBit v = (drop_bit 31 v \<noteq> 0)"

definition aluSubtractSetsCarryBit :: "u32 \<Rightarrow> u32 \<Rightarrow> bool" where
  "aluSubtractSetsCarryBit rnValue op2v = (\<not> (rnValue < op2v))"

definition aluSubtractSetsOverflowBit :: "u32 \<Rightarrow> u32 \<Rightarrow> u32 \<Rightarrow> bool" where
  "aluSubtractSetsOverflowBit rnValue op2v result =
     ((\<not> (rnValue AND 0x80000000 \<noteq> 0) \<and> op2v AND 0x80000000 \<noteq> 0 \<and> result AND 0x80000000 \<noteq> 0) \<or>
      (rnValue AND 0x80000000 \<noteq> 0 \<and> \<not> (op2v AND 0x80000000 \<noteq> 0) \<and> \<not> (result AND 0x80000000 \<noteq> 0)))"

definition aluAddSetsCarryBit :: "u32 \<Rightarrow> u32 \<Rightarrow> bool" where
  "aluAddSetsCarryBit rnValue op2v = (0xFFFFFFFF - op2v < rnValue)"

definition aluAddSetsOverflowBit :: "u32 \<Rightarrow> u32 \<Rightarrow> u32 \<Rightarrow> bool" where
  "aluAddSetsOverflowBit rnValue op2v result =
     ((rnValue AND 0x80000000 \<noteq> 0 \<and> op2v AND 0x80000000 \<noteq> 0 \<and> \<not> (result AND 0x80000000 \<noteq> 0)) \<or>
      (\<not> (rnValue AND 0x80000000 \<noteq> 0) \<and> \<not> (op2v AND 0x80000000 \<noteq> 0) \<and> result AND 0x80000000 \<noteq> 0))"

definition aluAddWithCarrySetsCarryBit :: "u64 \<Rightarrow> bool" where
  "aluAddWithCarrySetsCarryBit result = (drop_bit 32 result \<noteq> 0)"

text \<open>\<open>cpsr.C\<close> is promoted to a 32-bit value before it is masked.\<close>

definition aluAddWithCarrySetsOverflowBit :: "u32 \<Rightarrow> u32 \<Rightarrow> u32 \<Rightarrow> ARM7TDMI \<Rightarrow> bool" where
  "aluAddWithCarrySetsOverflowBit rnValue op2v result s =
     ((rnValue AND 0x80000000 \<noteq> 0 \<and> op2v AND 0x80000000 \<noteq> 0 \<and> \<not> ((rnValue + op2v) AND 0x80000000 \<noteq> 0)) \<or>
      (\<not> (rnValue AND 0x80000000 \<noteq> 0) \<and> \<not> (op2v AND 0x80000000 \<noteq> 0) \<and> (rnValue + op2v) AND 0x80000000 \<noteq> 0) \<or>
      (\<not> ((rnValue + op2v) AND 0x80000000 \<noteq> 0) \<and> \<not> ((ucast (C (cpsr s)) :: u32) AND 0x80000000 \<noteq> 0)
         \<and> result AND 0x80000000 \<noteq> 0))"

definition aluSubWithCarrySetsCarryBit :: "u64 \<Rightarrow> bool" where
  "aluSubWithCarrySetsCarryBit result = (\<not> (drop_bit 32 result \<noteq> 0))"

definition aluSubWithCarrySetsOverflowBit :: "u32 \<Rightarrow> u32 \<Rightarrow> u32 \<Rightarrow> ARM7TDMI \<Rightarrow> bool" where
  "aluSubWithCarrySetsOverflowBit rnValue op2v result s =
     ((rnValue AND 0x80000000 \<noteq> 0 \<and> (NOT op2v) AND 0x80000000 \<noteq> 0
         \<and> \<not> ((rnValue + NOT op2v) AND 0x80000000 \<noteq> 0)) \<or>
      (\<not> (rnValue AND 0x80000000 \<noteq> 0) \<and> \<not> ((NOT op2v) AND 0x80000000 \<noteq> 0)
         \<and> (rnValue + NOT op2v) AND 0x80000000 \<noteq> 0) \<or>
      (\<not> ((rnValue + NOT op2v) AND 0x80000000 \<noteq> 0) \<and> \<not> ((ucast (C (cpsr s)) :: u32) AND 0x80000000 \<noteq> 0)
         \<and> result AND 0x80000000 \<noteq> 0))"

section \<open>Barrel shifter\<close>

definition aluShiftLsl :: "u32 \<Rightarrow> u8 \<Rightarrow> u32 option" where
  "aluShiftLsl v shift = shl32 v (unat shift)"

definition aluShiftLsr :: "u32 \<Rightarrow> u8 \<Rightarrow> u32 option" where
  "aluShiftLsr v shift = shr32 v (unat shift)"

definition aluShiftAsr :: "u32 \<Rightarrow> u8 \<Rightarrow> u32 option" where
  "aluShiftAsr v shift = sar32 v (unat shift)"

text \<open>\<open>-shift & 31U\<close>: the promoted count is negated and converted to unsigned 32 bits
  before the mask. The leading \<open>assert\<close> stops the run when it fails.\<close>

definition aluShiftRor :: "u32 \<Rightarrow> u8 \<Rightarrow> u32 option" where
  "aluShiftRor v shift =
     (if unat shift < 32 then
        do {
          lo \<leftarrow> shr32 v (unat shift);
          hi \<leftarrow> shl32 v (unat ((- (ucast shift :: u32)) AND 31));
          Some (lo OR hi)
        }
      else None)"

text \<open>
  \<open>aluShift\<close> writes the member \<open>carryBit\<close> and returns it next to the operand. The
  immediate shift amount is written in the source as
  \<open>instruction & 0x00000F80 >> 7U\<close>; \<open>>>\<close> binds tighter than \<open>&\<close>, so the mask that
  is applied is \<open>0x00000F80 >> 7\<close>.
\<close>

definition aluShift :: "u32 \<Rightarrow> bool \<Rightarrow> bool \<Rightarrow> ARM7TDMI \<Rightarrow> (AluShiftResult \<times> ARM7TDMI) option" where
  "aluShift instruction i r s =
     (if i then
        (let rm = instruction AND 0x000000FF;
             is = (ucast (drop_bit 7 (instruction AND 0x00000F00)) :: u8)
         in do {
           op2v \<leftarrow> aluShiftRor rm (is mod 32);
           s1 \<leftarrow> (if is > 0
                   then do { c \<leftarrow> shr32 rm (unat is - 1); Some (s\<lparr>carryBit := ucast c\<rparr>) }
                   else Some s);
           Some (\<lparr>op2 = op2v, carry = carryBit s1\<rparr>, s1)
         })
      else
        (let shiftType = (ucast (drop_bit 5 (instruction AND 0x00000060)) :: u8);
             rmIndex = (ucast (instruction AND 0x0000000F) :: u8)
         in do {
           rmRead \<leftarrow> getRegister rmIndex s;
           let rm = (if rmIndex \<noteq> PC_REGISTER then rmRead
                     else if \<not> i \<and> r then rmRead + 12
                     else rmRead + 8);
           shiftAmount \<leftarrow>
             (if r then
                (let rsIndex = (ucast (drop_bit 8 (instruction AND 0x00000F00)) :: u8)
                 in if rsIndex \<noteq> 15
                    then do { rs \<leftarrow> getRegister rsIndex s; Some (rs AND 0x000000FF) }
                    else None)
              else Some (instruction AND drop_bit 7 0x00000F80));
           let immOpIsZero = (if r then False else shiftAmount = 0);
           (op2v, cb) \<leftarrow>
             (if shiftType = 0 then
                (if \<not> immOpIsZero then
                   do {
                     x \<leftarrow> aluShiftLsl rm (ucast shiftAmount);
                     c \<leftarrow> shr32 rm (unat (32 - shiftAmount));
                     Some (x, (ucast (c AND 1) :: u8))
                   }
                 else Some (rm, ucast (C (cpsr s))))
              else if shiftType = 1 then
                (if \<not> immOpIsZero then
                   do {
                     x \<leftarrow> aluShiftLsr rm (ucast shiftAmount);
                     c \<leftarrow> shr32 rm (unat (shiftAmount - 1));
                     Some (x, ucast (c AND 1))
                   }
                 else do { c \<leftarrow> shr32 rm 31; Some (0, ucast c) })
              else if shiftType = 2 then
                (if \<not> immOpIsZero then
                   do {
                     x \<leftarrow> aluShiftAsr rm (ucast shiftAmount);
                     c \<leftarrow> shr32 rm 31;
                     Some (x, ucast c)
                   }
                 else
                   do {
                     x \<leftarrow> aluShiftAsr rm 32;
                     c \<leftarrow> shr32 rm 31;
                     Some (x, ucast c)
                   })
              else
                (if \<not> immOpIsZero then
                   do {
                     x \<leftarrow> aluShiftRor rm (ucast (shiftAmount mod 32));
                     c \<leftarrow> shr32 rm (unat (shiftAmount - 1));
                     Some (x, ucast (c AND 1))
                   }
                 else
                   do {
                     x \<leftarrow> shr32 rm 1;
                     hi \<leftarrow> shl32 (ucast (C (cpsr s))) 31;
                     Some (x OR hi, ucast (rm AND 1))
                   }));
           Some (\<lparr>op2 = op2v, carry = cb\<rparr>, s\<lparr>carryBit := cb\<rparr>)
         }))"

section \<open>Data-processing operations\<close>

text \<open>\<open>enum AluOpcode\<close>. The first name carries a suffix because \<open>AND\<close> is the bitwise
  operator of the word library.\<close>

definition AND_op :: u8 where "AND_op = 0x0"
definition EOR :: u8 where "EOR = 0x1"
definition SUB :: u8 where "SUB = 0x2"
definition RSB :: u8 where "RSB = 0x3"
definition ADD :: u8 where "ADD = 0x4"
definition ADC :: u8 where "ADC = 0x5"
definition SBC :: u8 where "SBC = 0x6"
definition RSC :: u8 where "RSC = 0x7"
definition TST :: u8 where "TST = 0x8"
definition TEQ :: u8 where "TEQ = 0x9"
definition CMP :: u8 where "CMP = 0xA"
definition CMN :: u8 where "CMN = 0xB"
definition ORR :: u8 where "ORR = 0xC"
definition MOV :: u8 where "MOV = 0xD"
definition BIC :: u8 where "BIC = 0xE"
definition MVN :: u8 where "MVN = 0xF"

text \<open>
  The blocks of the \<open>switch\<close> in \<open>executeAluInstructionOperation\<close>, one definition
  per \<open>case\<close> label, in the order of the source. Each block converts \<open>rd\<close> to the
  8-bit index that \<open>setRegister\<close> takes. A \<open>bool\<close> stored in a flag byte is 0 or 1.
\<close>

type_synonym aluBlock = "u32 \<Rightarrow> u32 \<Rightarrow> u32 \<Rightarrow> ARM7TDMI \<Rightarrow> ARM7TDMI option"

definition case_AND :: aluBlock where
  "case_AND rd rnVal op2v s =
     (let result = rnVal AND op2v
      in do {
        s1 \<leftarrow> setRegister (ucast rd) result s;
        Some (s1\<lparr>zeroBit := of_bool (aluSetsZeroBit result),
                 signBit := of_bool (aluSetsSignBit result)\<rparr>)
      })"

definition case_EOR :: aluBlock where
  "case_EOR rd rnVal op2v s =
     (let result = rnVal XOR op2v
      in do {
        s1 \<leftarrow> setRegister (ucast rd) result s;
        Some (s1\<lparr>zeroBit := of_bool (aluSetsZeroBit result),
                 signBit := of_bool (aluSetsSignBit result)\<rparr>)
      })"

definition case_SUB :: aluBlock where
  "case_SUB rd rnVal op2v s =
     (let result = rnVal - op2v
      in do {
        s1 \<leftarrow> setRegister (ucast rd) result s;
        Some (s1\<lparr>zeroBit := of_bool (aluSetsZeroBit result),
                 signBit := of_bool (aluSetsSignBit result),
                 carryBit := of_bool (aluSubtractSetsCarryBit rnVal op2v),
                 overflowBit := of_bool (aluSubtractSetsOverflowBit rnVal op2v result)\<rparr>)
      })"

definition case_RSB :: aluBlock where
  "case_RSB rd rnVal op2v s =
     (let result = op2v - rnVal
      in do {
        s1 \<leftarrow> setRegister (ucast rd) result s;
        Some (s1\<lparr>zeroBit := of_bool (aluSetsZeroBit result),
                 signBit := of_bool (aluSetsSignBit result),
                 carryBit := of_bool (aluSubtractSetsCarryBit op2v rnVal),
                 overflowBit := of_bool (aluSubtractSetsOverflowBit op2v rnVal result)\<rparr>)
      })"

definition case_ADD :: aluBlock where
  "case_ADD rd rnVal op2v s =
     (let result = rnVal + op2v
      in do {
        s1 \<leftarrow> setRegister (ucast rd) result s;
        Some (s1\<lparr>zeroBit := of_bool (aluSetsZeroBit result),
                 signBit := of_bool (aluSetsSignBit result),
                 carryBit := of_bool (aluAddSetsCarryBit rnVal op2v),
                 overflowBit := of_bool (aluAddSetsOverflowBit rnVal op2v result)\<rparr>)
      })"

text \<open>In the three carry-in blocks every operand of the sum is 32 bits wide (\<open>cpsr.C\<close>
  is promoted to \<open>int\<close> and converted), so the sum wraps at 32 bits before it is
  widened to \<open>uint64_t\<close>.\<close>

definition case_ADC :: aluBlock where
  "case_ADC rd rnVal op2v s =
     (let result = (ucast (rnVal + op2v + ucast (C (cpsr s))) :: u64)
      in do {
        s1 \<leftarrow> setRegister (ucast rd) (ucast result) s;
        Some (s1\<lparr>zeroBit := of_bool (aluSetsZeroBit (ucast result)),
                 signBit := of_bool (aluSetsSignBit (ucast result)),
                 carryBit := of_bool (aluAddWithCarrySetsCarryBit result),
                 overflowBit := of_bool (aluAddWithCarrySetsOverflowBit rnVal op2v (ucast result) s1)\<rparr>)
      })"

definition case_SBC :: aluBlock where
  "case_SBC rd rnVal op2v s =
     (let result = (ucast (rnVal + NOT op2v + ucast (C (cpsr s))) :: u64)
      in do {
        s1 \<leftarrow> setRegister (ucast rd) (ucast result) s;
        Some (s1\<lparr>zeroBit := of_bool (aluSetsZeroBit (ucast result)),
                 signBit := of_bool (aluSetsSignBit (ucast result)),
                 carryBit := of_bool (aluSubWithCarrySetsCarryBit result),
                 overflowBit := of_bool (aluSubWithCarrySetsOverflowBit rnVal op2v (ucast result) s1)\<rparr>)
      })"

definition case_RSC :: aluBlock where
  "case_RSC rd rnVal op2v s =
     (let result = (ucast (op2v + NOT rnVal + ucast (C (cpsr s))) :: u64)
      in do {
        s1 \<leftarrow> setRegister (ucast rd) (ucast result) s;
        Some (s1\<lparr>zeroBit := of_bool (aluSetsZeroBit (ucast result)),
                 signBit := of_bool (aluSetsSignBit (ucast result)),
                 carryBit := of_bool (aluSubWithCarrySetsCarryBit result),
                 overflowBit := of_bool (aluSubWithCarrySetsOverflowBit op2v rnVal (ucast result) s1)\<rparr>)
      })"

definition case_TST :: aluBlock where
  "case_TST rd rnVal op2v s =
     (let result = rnVal AND op2v
      in Some (s\<lparr>zeroBit := of_bool (aluSetsZeroBit result),
                 signBit := of_bool (aluSetsSignBit result)\<rparr>))"

definition case_TEQ :: aluBlock where
  "case_TEQ rd rnVal op2v s =
     (let result = rnVal XOR op2v
      in Some (s\<lparr>zeroBit := of_bool (aluSetsZeroBit result),
                 signBit := of_bool (aluSetsSignBit result)\<rparr>))"

definition case_CMP :: aluBlock where
  "case_CMP rd rnVal op2v s =
     (let result = rnVal - op2v
      in Some (s\<lparr>zeroBit := of_bool (aluSetsZeroBit result),
                 signBit := of_bool (aluSetsSignBit result),
                 carryBit := of_bool (aluSubtractSetsCarryBit rnVal op2v),
                 overflowBit := of_bool (aluSubtractSetsOverflowBit rnVal op2v result)\<rparr>))"

definition case_CMN :: aluBlock where
  "case_CMN rd rnVal op2v s =
     (let result = rnVal + op2v
      in Some (s\<lparr>zeroBit := of_bool (aluSetsZeroBit result),
                 signBit := of_bool (aluSetsSignBit result),
                 carryBit := of_bool (aluAddSetsCarryBit rnVal op2v),
                 overflowBit := of_bool (aluAddSetsOverflowBit rnVal op2v result)\<rparr>))"

definition case_ORR :: aluBlock where
  "case_ORR rd rnVal op2v s =
     (let result = rnVal OR op2v
      in do {
        s1 \<leftarrow> setRegister (ucast rd) result s;
        Some (s1\<lparr>zeroBit := of_bool (aluSetsZeroBit result),
                 signBit := of_bool (aluSetsSignBit result)\<rparr>)
      })"

definition case_MOV :: aluBlock where
  "case_MOV rd rnVal op2v s =
     (let result = op2v
      in do {
        s1 \<leftarrow> setRegister (ucast rd) result s;
        Some (s1\<lparr>zeroBit := of_bool (aluSetsZeroBit result),
                 signBit := of_bool (aluSetsSignBit result)\<rparr>)
      })"

definition case_BIC :: aluBlock where
  "case_BIC rd rnVal op2v s =
     (let result = rnVal AND NOT op2v
      in do {
        s1 \<leftarrow> setRegister (ucast rd) result s;
        Some (s1\<lparr>zeroBit := of_bool (aluSetsZeroBit result),
                 signBit := of_bool (aluSetsSignBit result)\<rparr>)
      })"

definition case_MVN :: aluBlock where
  "case_MVN rd rnVal op2v s =
     (let result = NOT op2v
      in do {
        s1 \<leftarrow> setRegister (ucast rd) result s;
        Some (s1\<lparr>zeroBit := of_bool (aluSetsZeroBit result),
                 signBit := of_bool (aluSetsSignBit result)\<rparr>)
      })"

text \<open>
  The \<open>switch\<close> itself. No block ends in \<open>break\<close>: control enters at the first label
  equal to \<open>opcode\<close> and runs every block from there to the end of the statement. An
  \<open>opcode\<close> that matches no label skips the whole statement. The function has no
  \<open>return\<close> statement, so the model gives the state that the body leaves.
\<close>

definition switchCases :: "(u8 \<times> aluBlock) list" where
  "switchCases =
     [(AND_op, case_AND), (EOR, case_EOR), (SUB, case_SUB), (RSB, case_RSB),
      (ADD, case_ADD), (ADC, case_ADC), (SBC, case_SBC), (RSC, case_RSC),
      (TST, case_TST), (TEQ, case_TEQ), (CMP, case_CMP), (CMN, case_CMN),
      (ORR, case_ORR), (MOV, case_MOV), (BIC, case_BIC), (MVN, case_MVN)]"

fun fallThrough :: "aluBlock list \<Rightarrow> aluBlock" where
  "fallThrough [] rd rnVal op2v s = Some s"
| "fallThrough (b # bs) rd rnVal op2v s =
     do { s1 \<leftarrow> b rd rnVal op2v s; fallThrough bs rd rnVal op2v s1 }"

definition executeAluInstructionOperation :: "u8 \<Rightarrow> aluBlock" where
  "executeAluInstructionOperation opcode rd rnVal op2v s =
     fallThrough (map snd (dropWhile (\<lambda>c. fst c \<noteq> opcode) switchCases)) rd rnVal op2v s"

text \<open>
  \<open>executeAluInstruction\<close>. The opcode is written \<open>instruction & 0x01E00000 >> 21\<close>,
  which masks with \<open>0x01E00000 >> 21\<close>. \<open>rnValue\<close> is computed and not used: the
  operation receives \<open>getRegister(rn)\<close>. The zero flag receives \<open>overflowBit\<close>.
  A byte stored in a one-bit field keeps its lowest bit.
\<close>

definition executeAluInstruction :: "u32 \<Rightarrow> ARM7TDMI \<Rightarrow> ARM7TDMI option" where
  "executeAluInstruction instruction s =
     do {
       (shiftResult, s1) \<leftarrow>
          aluShift instruction (instruction AND 0x02000000 \<noteq> 0) (instruction AND 0x00000010 \<noteq> 0) s;
       let rd = (ucast (drop_bit 12 (instruction AND 0x0000F000)) :: u8);
       let rn = (ucast (drop_bit 16 (instruction AND 0x000F0000)) :: u8);
       let opcode = (ucast (instruction AND drop_bit 21 0x01E00000) :: u8);
       rnValue \<leftarrow>
          (if rn \<noteq> PC_REGISTER then getRegister rn s1
           else if \<not> (instruction AND 0x02000000 \<noteq> 0) \<and> instruction AND 0x00000010 \<noteq> 0
           then do { v \<leftarrow> getRegister rn s1; Some (v + 12) }
           else do { v \<leftarrow> getRegister rn s1; Some (v + 8) });
       let op2v = op2 shiftResult;
       rnRead \<leftarrow> getRegister rn s1;
       s2 \<leftarrow> executeAluInstructionOperation opcode (ucast rd) rnRead op2v s1;
       if rd \<noteq> PC_REGISTER \<and> instruction AND 0x00100000 \<noteq> 0 then
         Some (s2\<lparr>cpsr := (cpsr s2)\<lparr>C := ucast (carryBit s2),
                                     Z := ucast (overflowBit s2),
                                     N := ucast (signBit s2),
                                     V := ucast (overflowBit s2)\<rparr>\<rparr>)
       else if rd = PC_REGISTER \<and> instruction AND 0x00100000 \<noteq> 0 then
         Some (s2\<lparr>cpsr := getModeSpsr s2\<rparr>)
       else Some s2
     }"

section \<open>Dispatch and stepping\<close>

text \<open>\<open>return {}\<close> value-initialises the cycle record.\<close>

definition UNDEF :: "u32 \<Rightarrow> ARM7TDMI \<Rightarrow> Cycles \<times> ARM7TDMI" where
  "UNDEF instruction s =
     (\<lparr>nonSequentialCycles = 0, sequentialCycles = 0, internalCycles = 0, waitState = 0\<rparr>, s)"

text \<open>The mask literal is \<open>0x010E00000\<close>, nine hexadecimal digits with a leading zero.
  All sixteen labels share the one \<open>break\<close>.\<close>

definition executeInstruction :: "u32 \<Rightarrow> ARM7TDMI \<Rightarrow> Cycles \<times> ARM7TDMI" where
  "executeInstruction instruction s =
     (let sel = instruction AND 0x010E00000
      in if sel \<in> {0x0, 0x1, 0x2, 0x3, 0x4, 0x5, 0x6, 0x7, 0x8, 0x9, 0xA, 0xB, 0xC, 0xD, 0xE, 0xF}
         then (\<lparr>nonSequentialCycles = 0, sequentialCycles = 0, internalCycles = 0, waitState = 0\<rparr>, s)
         else (\<lparr>nonSequentialCycles = 0, sequentialCycles = 0, internalCycles = 0, waitState = 0\<rparr>, s))"

text \<open>
  The bus is an external collaborator; \<open>step\<close> takes its \<open>read\<close> function as a
  parameter. What \<open>step\<close> does besides changing the processor state is recorded as a
  list of events, in order: each call of \<open>bus->read\<close> with its address, and each call
  of \<open>executeInstruction\<close> with the word it receives.
\<close>

datatype event = BusRead u32 | Execute u32

definition step :: "(u32 \<Rightarrow> u32) \<Rightarrow> ARM7TDMI \<Rightarrow> event list \<times> ARM7TDMI" where
  "step busRead s =
     (let rawInstruction = busRead (cells s (Registers (unat PC_REGISTER)))
      in if T (cpsr s) \<noteq> 0
         then (let (cycles, s1) = executeInstruction rawInstruction s
               in ([BusRead (cells s (Registers (unat PC_REGISTER))), Execute rawInstruction], s1))
         else ([BusRead (cells s (Registers (unat PC_REGISTER)))], s))"

text \<open>The member initialisers of the header, then the constructor body.\<close>

definition zeroPsr :: ProgramStatusRegister where
  "zeroPsr = \<lparr>Mode = 0, T = 0, F = 0, I = 0, Reserved = 0, Q = 0, V = 0, C = 0, Z = 0, N = 0\<rparr>"

definition memberInit :: ARM7TDMI where
  "memberInit =
     \<lparr>cells = (\<lambda>c. if c = R8_fiq then 69 else 0),
      cpsr = zeroPsr, SPSR_fiq = zeroPsr, SPSR_svc = zeroPsr, SPSR_abt = zeroPsr,
      SPSR_irq = zeroPsr, SPSR_und = zeroPsr,
      overflowBit = 0, carryBit = 0, zeroBit = 0, signBit = 0\<rparr>"

definition construct :: "ARM7TDMI option" where
  "construct =
     setRegister PC_REGISTER BOOT_LOCATION
       (memberInit\<lparr>cpsr := (cpsr memberInit)\<lparr>Mode := SUPERVISOR, T := 0\<rparr>\<rparr>)"


section \<open>Properties of blocks\<close>


text \<open>A block runs to its end whenever \<open>rd\<close> names one of the sixteen registers.\<close>

definition runsOnValid :: "aluBlock \<Rightarrow> bool" where
  "runsOnValid b =
     (\<forall>rd rnVal op2v s. unat (ucast rd :: u8) < 16 \<longrightarrow> b rd rnVal op2v s \<noteq> None)"

section \<open>Unfolding rules\<close>

lemmas Mode_defs = USER_def FIQ_def IRQ_def SUPERVISOR_def ABORT_def UNDEFINED_def SYSTEM_def

lemmas case_defs = case_AND_def case_EOR_def case_SUB_def case_RSB_def case_ADD_def case_ADC_def
  case_SBC_def case_RSC_def case_TST_def case_TEQ_def case_CMP_def case_CMN_def case_ORR_def
  case_MOV_def case_BIC_def case_MVN_def

lemmas opcode_defs = AND_op_def EOR_def SUB_def RSB_def ADD_def ADC_def SBC_def RSC_def TST_def
  TEQ_def CMP_def CMN_def ORR_def MOV_def BIC_def MVN_def

lemmas shift_defs = aluShift_def aluShiftLsl_def aluShiftLsr_def aluShiftAsr_def aluShiftRor_def
  shl32_def shr32_def sar32_def

section \<open>Register file\<close>

lemma getRegister_activeCell:
  "getRegister index s =
     (if unat index < 16 then Some (cells s (activeCell (Mode (cpsr s)) (unat index))) else None)"
  by (simp add: getRegister_def activeCell_def Mode_defs)

lemma setRegister_activeCell:
  "setRegister index v s =
     (if unat index < 16
      then Some (s\<lparr>cells := (cells s)(activeCell (Mode (cpsr s)) (unat index) := v)\<rparr>)
      else None)"
  by (simp add: setRegister_def activeCell_def Mode_defs)

lemmas state_defs = construct_def memberInit_def zeroPsr_def setRegister_activeCell
  getRegister_activeCell activeCell_def Mode_defs svcRegisters_def irqRegisters_def
  PC_REGISTER_def BOOT_LOCATION_def

text \<open>
  C6. A write through a logical index in one mode changes the one storage cell that
  backs the index in that mode and nothing else, and a read through the same index
  returns the written value. Registers 13 of IRQ and Supervisor mode are different
  cells: after writing \<open>a\<close> in Supervisor mode and then \<open>b\<close> in IRQ mode, register 13
  reads \<open>a\<close> in Supervisor mode and \<open>b\<close> in IRQ mode, for all \<open>a\<close> and \<open>b\<close>.
\<close>

theorem banked_register_write:
  "(unat index < 16 \<longrightarrow>
      setRegister index v s =
        Some (s\<lparr>cells := (cells s)(activeCell (Mode (cpsr s)) (unat index) := v)\<rparr>) \<and>
      (\<forall>s'. setRegister index v s = Some s' \<longrightarrow>
         getRegister index s' = Some v \<and>
         (\<forall>c. c \<noteq> activeCell (Mode (cpsr s)) (unat index) \<longrightarrow> cells s' c = cells s c))) \<and>
   activeCell IRQ 13 \<noteq> activeCell SUPERVISOR 13 \<and>
   do {
     s1 \<leftarrow> setRegister 13 a (withMode SUPERVISOR s);
     s2 \<leftarrow> setRegister 13 b (withMode IRQ s1);
     getRegister 13 (withMode SUPERVISOR s2)
   } = Some a \<and>
   do {
     s1 \<leftarrow> setRegister 13 a (withMode SUPERVISOR s);
     s2 \<leftarrow> setRegister 13 b (withMode IRQ s1);
     getRegister 13 (withMode IRQ s2)
   } = Some b"
  by (simp add: getRegister_activeCell setRegister_activeCell activeCell_def Mode_defs
        irqRegisters_def svcRegisters_def)

theorem banked_register_write_witness:
  "unat (13 :: u8) < 16 \<and>
   (\<exists>s'. setRegister 13 7 (withMode IRQ memberInit) = Some s' \<and>
         getRegister 13 s' = Some 7 \<and>
         cells s' R13_svc = cells memberInit R13_svc \<and>
         getRegister 13 (withMode SUPERVISOR s') = Some 0)"
  using banked_register_write [of 13 7 "withMode IRQ memberInit" 0 7]
  by (simp add: state_defs)

section \<open>Flag predicates\<close>

lemma msb_mask: "(x AND 0x80000000 \<noteq> 0) = bit (x :: u32) 31"
  using bit_iff_and_push_bit_not_eq_0 [of x 31] by simp

lemma sign_drop: "(drop_bit 31 (x :: u32) \<noteq> 0) = bit x 31"
  using drop_bit_eq_zero_iff_not_bit_last [of x] by simp

lemma sint_if: "sint (x :: u32) = (if bit x 31 then uint x - 2 ^ 32 else uint x)"
proof -
  have "take_bit 32 (uint x) = uint x"
    using uint_bounded [of x] by (simp add: take_bit_int_eq_self)
  then show ?thesis
    by (simp add: sint_uint signed_take_bit_eq_take_bit_minus [of 31 "uint x"] bit_uint_iff)
qed

lemma uint_range: "0 \<le> uint (x :: u32) \<and> uint x < 4294967296"
  using uint_bounded [of x] by simp

lemma msb_uint: "bit (x :: u32) 31 = (2147483648 \<le> uint x)"
proof (cases "bit x 31")
  case True
  then have "sint x = uint x - 4294967296" by (simp add: sint_if)
  moreover have "- 2147483648 \<le> sint x" using sint_ge [of x] by simp
  ultimately show ?thesis using True by simp
next
  case False
  then have "sint x = uint x" by (simp add: sint_if)
  moreover have "sint x < 2147483648" using sint_lt [of x] by simp
  ultimately show ?thesis using False by simp
qed

lemma sint_uint32:
  "sint (x :: u32) = (if 2147483648 \<le> uint x then uint x - 4294967296 else uint x)"
  by (simp add: sint_if msb_uint)

text \<open>The sign rule for addition, on the unsigned readings \<open>A\<close>, \<open>B\<close> and the wrapped
  sum \<open>S\<close>.\<close>

lemma add_sign_rule:
  fixes A B :: int
  assumes "0 \<le> A" "A < 4294967296" "0 \<le> B" "B < 4294967296"
    and "S = (if A + B < 4294967296 then A + B else A + B - 4294967296)"
  shows "((2147483648 \<le> A \<and> 2147483648 \<le> B \<and> \<not> 2147483648 \<le> S) \<or>
          (\<not> 2147483648 \<le> A \<and> \<not> 2147483648 \<le> B \<and> 2147483648 \<le> S)) =
         ((if 2147483648 \<le> A then A - 4294967296 else A) +
            (if 2147483648 \<le> B then B - 4294967296 else B) < - 2147483648 \<or>
          2147483648 \<le> (if 2147483648 \<le> A then A - 4294967296 else A) +
            (if 2147483648 \<le> B then B - 4294967296 else B))"
  using assms by (auto split: if_splits)

lemma sub_sign_rule:
  fixes A B :: int
  assumes "0 \<le> A" "A < 4294967296" "0 \<le> B" "B < 4294967296"
    and "S = (if B \<le> A then A - B else A - B + 4294967296)"
  shows "((\<not> 2147483648 \<le> A \<and> 2147483648 \<le> B \<and> 2147483648 \<le> S) \<or>
          (2147483648 \<le> A \<and> \<not> 2147483648 \<le> B \<and> \<not> 2147483648 \<le> S)) =
         ((if 2147483648 \<le> A then A - 4294967296 else A) -
            (if 2147483648 \<le> B then B - 4294967296 else B) < - 2147483648 \<or>
          2147483648 \<le> (if 2147483648 \<le> A then A - 4294967296 else A) -
            (if 2147483648 \<le> B then B - 4294967296 else B))"
  using assms by (auto split: if_splits)

lemma add_overflow_range:
  "aluAddSetsOverflowBit a b (a + b) =
     (sint a + sint b < - 2147483648 \<or> 2147483648 \<le> sint a + sint b)"
  unfolding aluAddSetsOverflowBit_def msb_mask msb_uint sint_uint32
  using uint_range [of a] uint_range [of b] uint_plus_if' [of a b]
  by (intro add_sign_rule) simp_all

lemma sub_overflow_range:
  "aluSubtractSetsOverflowBit a b (a - b) =
     (sint a - sint b < - 2147483648 \<or> 2147483648 \<le> sint a - sint b)"
  unfolding aluSubtractSetsOverflowBit_def msb_mask msb_uint sint_uint32
  using uint_range [of a] uint_range [of b] uint_sub_if' [of a b]
  by (intro sub_sign_rule) simp_all

lemma add_carry_range: "aluAddSetsCarryBit a b = (4294967296 \<le> uint a + uint b)"
proof -
  have "uint (0xFFFFFFFF - b) = 4294967295 - uint b"
    using uint_range [of b] by (simp add: uint_sub_if')
  then show ?thesis
    by (auto simp add: aluAddSetsCarryBit_def word_less_def)
qed

lemma sub_carry_range: "aluSubtractSetsCarryBit a b = (uint b \<le> uint a)"
  by (auto simp add: aluSubtractSetsCarryBit_def word_less_def)

text \<open>
  C5. For all 32-bit \<open>a\<close> and \<open>b\<close>, read unsigned by \<open>uint\<close> and signed by \<open>sint\<close>:
  the add carry predicate holds iff the unsigned sum reaches \<open>2^32\<close>; the add overflow
  predicate, on the result \<open>a + b\<close> that the add blocks pass, holds iff the signed sum
  leaves the range from \<open>-2^31\<close> to \<open>2^31 - 1\<close>; the subtract carry predicate holds
  iff \<open>b\<close> is at most \<open>a\<close> unsigned; the subtract overflow predicate, on the result
  \<open>a - b\<close>, holds iff the signed difference leaves that range; the zero predicate holds
  iff the result is 0; the sign predicate is bit 31 of the result.
\<close>

theorem alu_flag_predicates:
  "(aluAddSetsCarryBit a b = (2 ^ 32 \<le> uint a + uint b)) \<and>
   (aluAddSetsOverflowBit a b (a + b) =
      (sint a + sint b < - (2 ^ 31) \<or> 2 ^ 31 \<le> sint a + sint b)) \<and>
   (aluSubtractSetsCarryBit a b = (uint b \<le> uint a)) \<and>
   (aluSubtractSetsOverflowBit a b (a - b) =
      (sint a - sint b < - (2 ^ 31) \<or> 2 ^ 31 \<le> sint a - sint b)) \<and>
   (aluSetsZeroBit r = (r = 0)) \<and>
   (aluSetsSignBit r = bit r 31)"
  by (simp add: add_carry_range add_overflow_range sub_carry_range sub_overflow_range
        aluSetsZeroBit_def aluSetsSignBit_def sign_drop)

theorem alu_flag_predicates_witness:
  "\<not> aluAddSetsCarryBit 0x7FFFFFFF 1 \<and>
   aluAddSetsOverflowBit 0x7FFFFFFF 1 (0x7FFFFFFF + 1) \<and>
   aluSubtractSetsCarryBit 0x7FFFFFFF 1 \<and>
   \<not> aluSubtractSetsOverflowBit 0x7FFFFFFF 1 (0x7FFFFFFF - 1) \<and>
   \<not> aluSetsZeroBit 0x80000000 \<and>
   aluSetsSignBit 0x80000000"
  using alu_flag_predicates [of "0x7FFFFFFF" 1 "0x80000000"]
  by simp

section \<open>The fall-through of the operation switch\<close>


lemma switchCases_runsOnValid: "\<forall>b \<in> set (map snd switchCases). runsOnValid b"
  by (auto simp add: switchCases_def runsOnValid_def case_defs setRegister_activeCell Let_def
      split: if_splits)


lemma fallThrough_runsOnValid:
  "\<forall>b \<in> set bs. runsOnValid b \<Longrightarrow> runsOnValid (fallThrough bs)"
proof (induction bs)
  case Nil
  show ?case by (simp add: runsOnValid_def)
next
  case (Cons b bs)
  then have b: "runsOnValid b" and r: "runsOnValid (fallThrough bs)" by simp_all
  show ?case
    unfolding runsOnValid_def
  proof (intro allI impI)
    fix rd rnVal op2v s
    assume v: "unat (ucast (rd :: u32) :: u8) < 16"
    with b obtain s1 where 1: "b rd rnVal op2v s = Some s1"
      unfolding runsOnValid_def by blast
    from r v have "fallThrough bs rd rnVal op2v s1 \<noteq> None"
      unfolding runsOnValid_def by blast
    with 1 show "fallThrough (b # bs) rd rnVal op2v s \<noteq> None" by simp
  qed
qed

lemma fallThrough_snoc:
  "fallThrough (bs @ [b]) rd rnVal op2v s =
     do { s1 \<leftarrow> fallThrough bs rd rnVal op2v s; b rd rnVal op2v s1 }"
proof (induction bs arbitrary: s)
  case Nil
  show ?case by (cases "b rd rnVal op2v s") simp_all
next
  case (Cons a bs)
  show ?case by (cases "a rd rnVal op2v s") (simp_all add: Cons.IH)
qed

lemma opcode_cases:
  assumes "(opcode :: u8) \<le> 15"
  shows "opcode \<in> {0, 1, 2, 3, 4, 5, 6, 7, 8, 9, 10, 11, 12, 13, 14, 15}"
proof -
  have "unat opcode \<le> 15" using assms by (simp add: word_le_nat_alt)
  then have "unat opcode = 0 \<or> unat opcode = 1 \<or> unat opcode = 2 \<or> unat opcode = 3 \<or>
     unat opcode = 4 \<or> unat opcode = 5 \<or> unat opcode = 6 \<or> unat opcode = 7 \<or>
     unat opcode = 8 \<or> unat opcode = 9 \<or> unat opcode = 10 \<or> unat opcode = 11 \<or>
     unat opcode = 12 \<or> unat opcode = 13 \<or> unat opcode = 14 \<or> unat opcode = 15"
    by arith
  then have "of_nat (unat opcode) \<in> {0, 1, 2, 3, 4, 5, 6, 7, 8, 9, 10, 11, 12, 13, 14, 15 :: u8}"
    by (elim disjE) simp_all
  then show ?thesis by simp
qed

lemma entry_blocks:
  assumes "(opcode :: u8) \<le> 15"
  shows "\<exists>bs. map snd (dropWhile (\<lambda>c. fst c \<noteq> opcode) switchCases) = bs @ [case_MVN] \<and>
              set bs \<subseteq> set (map snd switchCases)"
  using opcode_cases [OF assms]
  by (auto simp add: switchCases_def opcode_defs)

lemma entry_position:
  assumes "(opcode :: u8) \<le> 15"
  shows "dropWhile (\<lambda>c. fst c \<noteq> opcode) switchCases = drop (unat opcode) switchCases"
  using opcode_cases [OF assms]
  by (auto simp add: switchCases_def opcode_defs)



text \<open>
  C9. For every opcode from 0 to 15, every \<open>rd\<close> that names one of the sixteen
  registers and all operand values, \<open>executeAluInstructionOperation\<close> runs to its end;
  it enters the switch at the block numbered \<open>opcode\<close> and runs every later block, the
  last one being the MVN block; afterwards the destination register holds
  \<open>NOT op2\<close> and the zero and sign flag bytes are those computed from \<open>NOT op2\<close>.
\<close>

theorem operation_ends_at_MVN:
  assumes op: "opcode \<le> 15" and rd: "unat (ucast rd :: u8) < 16"
  shows "\<exists>s'. executeAluInstructionOperation opcode rd rnVal op2v s = Some s' \<and>
           getRegister (ucast rd) s' = Some (NOT op2v) \<and>
           zeroBit s' = of_bool (aluSetsZeroBit (NOT op2v)) \<and>
           signBit s' = of_bool (aluSetsSignBit (NOT op2v)) \<and>
           executeAluInstructionOperation opcode rd rnVal op2v s =
             fallThrough (drop (unat opcode) (map snd switchCases)) rd rnVal op2v s \<and>
           last (map snd switchCases) = case_MVN"
proof -
  from entry_blocks [OF op] obtain bs where
    bs: "map snd (dropWhile (\<lambda>c. fst c \<noteq> opcode) switchCases) = bs @ [case_MVN]"
    and sub: "set bs \<subseteq> set (map snd switchCases)" by blast
  have "runsOnValid (fallThrough bs)"
    using sub switchCases_runsOnValid by (intro fallThrough_runsOnValid) blast
  with rd obtain s1 where s1: "fallThrough bs rd rnVal op2v s = Some s1"
    unfolding runsOnValid_def by blast
  have "executeAluInstructionOperation opcode rd rnVal op2v s = case_MVN rd rnVal op2v s1"
    by (simp add: executeAluInstructionOperation_def bs fallThrough_snoc s1)
  moreover have "executeAluInstructionOperation opcode rd rnVal op2v s =
      fallThrough (drop (unat opcode) (map snd switchCases)) rd rnVal op2v s"
    by (simp add: executeAluInstructionOperation_def entry_position [OF op] drop_map)
  moreover have "last (map snd switchCases) = case_MVN"
    by (simp add: switchCases_def)
  ultimately show ?thesis
    using rd by (simp add: case_MVN_def setRegister_activeCell getRegister_activeCell)
qed

theorem operation_ends_at_MVN_witness:
  "ADD \<le> 15 \<and> unat (ucast (0 :: u32) :: u8) < 16 \<and>
   (\<exists>s'. executeAluInstructionOperation ADD 0 0x7FFFFFFF 1 memberInit = Some s' \<and>
         getRegister 0 s' = Some (NOT 1) \<and> zeroBit s' = 0 \<and> signBit s' = 1)"
  using operation_ends_at_MVN [of ADD 0 "0x7FFFFFFF" 1 memberInit]
  by (auto simp add: ADD_def aluSetsZeroBit_def aluSetsSignBit_def)

section \<open>Flag-setting writes to the program counter\<close>













section \<open>Stepping and dispatch\<close>

lemma bit1_cases: "(x :: 1 word) = 0 \<or> x = 1"
proof -
  have "unat x < 2" using unsigned_less [of x, where 'a = nat] by simp
  then have "unat x = 0 \<or> unat x = 1" by arith
  then have "of_nat (unat x) = (0 :: 1 word) \<or> of_nat (unat x) = (1 :: 1 word)"
    by (elim disjE) simp_all
  then show ?thesis by simp
qed

text \<open>
  C3. In every state whose T bit is 0, one call of \<open>step\<close> reads one word from the
  bus, at the address held in \<open>registers[15]\<close>, and does nothing else: the state
  afterwards, with every general-purpose and banked register and every field of the
  current status register, is the state before. \<open>executeInstruction\<close> is called
  exactly when the T bit is 1.
\<close>

theorem step_in_ARM_state:
  "(T (cpsr s) = 0 \<longrightarrow> step busRead s = ([BusRead (cells s (Registers 15))], s)) \<and>
   snd (step busRead s) = s \<and>
   ((\<exists>w. Execute w \<in> set (fst (step busRead s))) = (T (cpsr s) = 1))"
  using bit1_cases [of "T (cpsr s)"]
  by (auto simp add: step_def executeInstruction_def PC_REGISTER_def Let_def)

theorem step_in_ARM_state_witness:
  "\<exists>s0. construct = Some s0 \<and> T (cpsr s0) = 0 \<and>
         step (\<lambda>a. 0xE2910104) s0 = ([BusRead BOOT_LOCATION], s0)"
proof -
  obtain s0 where c: "construct = Some s0"
    by (simp add: construct_def setRegister_activeCell PC_REGISTER_def)
  then have t: "T (cpsr s0) = 0" and pc: "cells s0 (Registers 15) = BOOT_LOCATION"
    by (auto simp add: state_defs)
  from step_in_ARM_state [of s0 "\<lambda>a. 0xE2910104"] t pc c show ?thesis by auto
qed

lemma mask_hides_low_labels:
  assumes "(instruction :: u32) AND 0x010E00000 = k"
  shows "k AND 0xF = 0"
proof -
  have "(0x010E00000 :: u32) AND 0xF = 0" by simp
  then have "instruction AND (0x010E00000 AND 0xF) = 0" by (simp only: and_zero_eq)
  then have "(instruction AND 0x010E00000) AND 0xF = 0" by (simp only: and.assoc)
  with assms show ?thesis by simp
qed

text \<open>
  C10. For every instruction word, \<open>executeInstruction\<close> returns the all-zero cycle
  record and leaves the processor state as it was. The masked selector is never one of
  the labels \<open>0x1\<close> to \<open>0xF\<close>, so of the sixteen labels only \<open>0x0\<close> can match; matched
  or not, the function reaches the same \<open>return {}\<close>. \<open>UNDEF\<close> returns the same record
  and state.
\<close>

theorem dispatch_is_inert:
  "executeInstruction instruction s =
     (\<lparr>nonSequentialCycles = 0, sequentialCycles = 0, internalCycles = 0, waitState = 0\<rparr>, s) \<and>
   instruction AND 0x010E00000 \<notin>
     {0x1, 0x2, 0x3, 0x4, 0x5, 0x6, 0x7, 0x8, 0x9, 0xA, 0xB, 0xC, 0xD, 0xE, 0xF} \<and>
   UNDEF instruction s =
     (\<lparr>nonSequentialCycles = 0, sequentialCycles = 0, internalCycles = 0, waitState = 0\<rparr>, s)"
  using mask_hides_low_labels [of instruction "instruction AND 0x010E00000"]
  by (auto simp add: executeInstruction_def UNDEF_def Let_def)

theorem dispatch_is_inert_witness:
  "executeInstruction 0xE2910104 memberInit =
     (\<lparr>nonSequentialCycles = 0, sequentialCycles = 0, internalCycles = 0, waitState = 0\<rparr>,
      memberInit) \<and>
   (0xE2910104 :: u32) AND 0x010E00000 = 0x800000"
  using dispatch_is_inert [of "0xE2910104" memberInit]
  by simp

section \<open>Concrete runs\<close>

text \<open>
  C1. From the state the constructor leaves, the operation entered at the CMP label
  with both operands 5 runs on through the CMN, ORR, MOV, BIC and MVN blocks: register
  0, which held 0, holds \<open>0xFFFFFFFA\<close> afterwards, and the flag bytes are zero = 0,
  sign = 1, carry = 0, overflow = 0. The instruction \<open>0xE151056A\<close> (CMP with S bit,
  Rn = R1 = 5, second operand R10 = \<open>0x1400\<close> rotated right by 10, which is 5,
  destination field 0) leaves the same register value and the status flags Z = 0,
  N = 1, C = 0, V = 0.
\<close>

theorem CMP_5_5_runs_on:
  "do {
     s0 \<leftarrow> construct;
     s' \<leftarrow> executeAluInstructionOperation CMP 0 5 5 s0;
     Some (getRegister 0 s0, getRegister 0 s', zeroBit s', signBit s', carryBit s', overflowBit s')
   } = Some (Some 0, Some 0xFFFFFFFA, 0, 1, 0, 0) \<and>
   do {
     s0 \<leftarrow> construct;
     s1 \<leftarrow> setRegister 1 5 s0;
     s2 \<leftarrow> setRegister 10 0x1400 s1;
     s' \<leftarrow> executeAluInstruction 0xE151056A s2;
     Some (getRegister 0 s2, getRegister 0 s', Z (cpsr s'), N (cpsr s'), C (cpsr s'), V (cpsr s'))
   } = Some (Some 0, Some 0xFFFFFFFA, 0, 1, 0, 0)"
  by code_simp

text \<open>
  C2. From the state the constructor leaves, the operation entered at the ADD label
  with operands \<open>0x7FFFFFFF\<close> and 1 and destination 0 runs on to the MVN block:
  register 0 holds \<open>0xFFFFFFFE\<close> afterwards, and the flag bytes are zero = 0,
  sign = 1, carry = 0, overflow = 1. The instruction \<open>0xE2910104\<close> (ADD with S bit,
  Rn = R1 = \<open>0x7FFFFFFF\<close>, immediate 4 rotated right by 2, which is 1, destination R0)
  leaves the same register value and the status flags Z = 1, N = 1, C = 0, V = 1.
\<close>

theorem ADD_overflow_runs_on:
  "do {
     s0 \<leftarrow> construct;
     s' \<leftarrow> executeAluInstructionOperation ADD 0 0x7FFFFFFF 1 s0;
     Some (getRegister 0 s', zeroBit s', signBit s', carryBit s', overflowBit s')
   } = Some (Some 0xFFFFFFFE, 0, 1, 0, 1) \<and>
   do {
     s0 \<leftarrow> construct;
     s1 \<leftarrow> setRegister 1 0x7FFFFFFF s0;
     s' \<leftarrow> executeAluInstruction 0xE2910104 s1;
     Some (getRegister 0 s', Z (cpsr s'), N (cpsr s'), C (cpsr s'), V (cpsr s'))
   } = Some (Some 0xFFFFFFFE, 1, 1, 0, 1)"
  by code_simp

text \<open>
  C4. Two register-form encodings whose immediate shift-amount field (bits 11 to 7) is
  0, run from the constructor's state. \<open>0x00000021\<close> is LSR with amount field 0 on R1:
  with R1 = \<open>0x80000000\<close> the shifter returns \<open>0x40000000\<close> with carry 0, because the
  amount it uses is the low five bits of the word, here 1. \<open>0x00000040\<close> is ASR with
  amount field 0 on R0: the amount the shifter uses is 0 as well, it takes the
  shift-by-32 branch, and the arithmetic shift by 32 has no defined result.
\<close>

theorem shift_amount_field_zero:
  "do {
     s0 \<leftarrow> construct;
     s1 \<leftarrow> setRegister 1 0x80000000 s0;
     (res, s') \<leftarrow> aluShift 0x00000021 False False s1;
     Some res
   } = Some \<lparr>op2 = 0x40000000, carry = 0\<rparr> \<and>
   do {
     s0 \<leftarrow> construct;
     s1 \<leftarrow> setRegister 0 0x40000000 s0;
     (res, s') \<leftarrow> aluShift 0x00000040 False False s1;
     Some res
   } = None"
  by (simp add: state_defs shift_defs Let_def)

text \<open>
  C7. Two encodings whose shift amount comes from R1, run from the constructor's state
  with R1 = 0, carry flag 0 and R0 = \<open>0x80000000\<close>. \<open>0x00000150\<close> is ASR of R0 by R1:
  the shifter returns the unshifted \<open>0x80000000\<close> with carry 1, which is bit 31 of the
  operand and not the carry flag. \<open>0x00000110\<close> is LSL of R0 by R1: the carry is taken
  from a right shift by \<open>32 - 0\<close>, which has no defined result.
\<close>

theorem register_shift_amount_zero:
  "do {
     s0 \<leftarrow> construct;
     s1 \<leftarrow> setRegister 0 0x80000000 s0;
     (res, s') \<leftarrow> aluShift 0x00000150 False True s1;
     Some (getRegister 1 s1, C (cpsr s1), res)
   } = Some (Some 0, 0, \<lparr>op2 = 0x80000000, carry = 1\<rparr>) \<and>
   do {
     s0 \<leftarrow> construct;
     s1 \<leftarrow> setRegister 0 0x80000000 s0;
     (res, s') \<leftarrow> aluShift 0x00000110 False True s1;
     Some res
   } = None"
  by (simp add: state_defs shift_defs Let_def)

end
